theory Spec2Isabelle
  imports Main "HOL-Library.Sublist"
begin

section \<open>JavaScript values\<close>

text \<open>
  The request handler of \<^verbatim>\<open>src/modules/request-handler/index.js\<close> works on plain
  JavaScript data: path parameters, a parsed body, models handed back by the adapter.
  They are trees here; numbers are the integers, and an object is the list of its own
  properties in insertion order.
\<close>

datatype jsval =
    JUndefined
  | JNull
  | JBool bool
  | JNum int
  | JStr string
  | JArr "jsval list"
  | JObj "(string \<times> jsval) list"

text \<open>\<^verbatim>\<open>!!v\<close> and the test of \<^verbatim>\<open>if (v)\<close>.\<close>

fun truthy :: "jsval \<Rightarrow> bool" where
  "truthy JUndefined = False"
| "truthy JNull = False"
| "truthy (JBool b) = b"
| "truthy (JNum n) = (n \<noteq> 0)"
| "truthy (JStr s) = (s \<noteq> [])"
| "truthy (JArr xs) = True"
| "truthy (JObj ps) = True"

text \<open>
  An error object: its constructor name, its message, and the HTTP status that Kapow
  tags it with (absent on a plain \<^verbatim>\<open>Error\<close>).
\<close>

record js_error =
  name :: string
  message :: string
  httpStatus :: "nat option"

definition Error :: "string \<Rightarrow> js_error" where
  "Error msg = \<lparr>name = ''Error'', message = msg, httpStatus = None\<rparr>"

definition TypeError :: "string \<Rightarrow> js_error" where
  "TypeError msg = \<lparr>name = ''TypeError'', message = msg, httpStatus = None\<rparr>"

text \<open>
  Modelled from the spec: the \<^verbatim>\<open>kapow\<close> package is not part of the source.
  \<^verbatim>\<open>Kapow(code, message)\<close> makes an error that carries the status code and the message.
\<close>

definition Kapow :: "nat \<Rightarrow> string \<Rightarrow> js_error" where
  "Kapow code msg = \<lparr>name = ''Error'', message = msg, httpStatus = Some code\<rparr>"

text \<open>
  Modelled from the spec: \<^verbatim>\<open>Kapow.wrap(e, code)\<close>, of the same package, tags the error
  \<^verbatim>\<open>e\<close> with the status code and leaves its message as it is.
\<close>

definition Kapow_wrap :: "js_error \<Rightarrow> nat \<Rightarrow> js_error" where
  "Kapow_wrap e code = e\<lparr>httpStatus := Some code\<rparr>"

text \<open>
  Reading a property of an object whose properties are all known: \<^verbatim>\<open>o.k\<close> is
  \<^verbatim>\<open>undefined\<close> when \<^verbatim>\<open>o\<close> has no property \<^verbatim>\<open>k\<close>.
\<close>

definition prop_of :: "(string \<times> jsval) list \<Rightarrow> string \<Rightarrow> jsval" where
  "prop_of ps k = (case map_of ps k of None \<Rightarrow> JUndefined | Some v \<Rightarrow> v)"

text \<open>
  Reading a property of any value: \<^verbatim>\<open>undefined.k\<close> and \<^verbatim>\<open>null.k\<close> throw a TypeError.
  The handler reads only \<^verbatim>\<open>data\<close> and \<^verbatim>\<open>id\<close> this way, which no boolean, number,
  string or array has, so those values give \<^verbatim>\<open>undefined\<close>. The wording of the message
  of a TypeError is the engine's; the handler never looks at it, since these errors are
  thrown outside of any promise chain.
\<close>

fun get :: "jsval \<Rightarrow> string \<Rightarrow> js_error + jsval" where
  "get JUndefined k = Inl (TypeError (''Cannot read property '' @ k @ '' of undefined''))"
| "get JNull k = Inl (TypeError (''Cannot read property '' @ k @ '' of null''))"
| "get (JObj ps) k = Inr (prop_of ps k)"
| "get v k = Inr JUndefined"

section \<open>Requests and modes\<close>

text \<open>
  The request shape the handler consumes. \<^verbatim>\<open>params\<close> and \<^verbatim>\<open>query\<close> are objects;
  \<^verbatim>\<open>include\<close> and \<^verbatim>\<open>sort\<close> are raw comma-separated strings when present (the source
  calls their \<^verbatim>\<open>split\<close> method); \<^verbatim>\<open>filter\<close> and \<^verbatim>\<open>fields\<close> are whatever the query-string
  parser made of them; \<^verbatim>\<open>body\<close> is \<^verbatim>\<open>undefined\<close> on a request without one.
\<close>

record raw_query =
  q_include :: "string option"
  q_filter :: jsval
  q_fields :: jsval
  q_sort :: "string option"

record request =
  req_headers :: "(string \<times> jsval) list"
  req_params :: "(string \<times> jsval) list"
  req_query :: raw_query
  req_body :: jsval

definition COLLECTION_MODE :: string where "COLLECTION_MODE = ''collection''"
definition SINGLE_MODE :: string where "SINGLE_MODE = ''single''"
definition RELATION_MODE :: string where "RELATION_MODE = ''relation''"
definition RELATED_MODE :: string where "RELATED_MODE = ''related''"

text \<open>
  \<^verbatim>\<open>RequestHandler.prototype.mode\<close>. The last line of the source returns the Kapow error
  (it does not throw it): \<open>Inl\<close> is that returned error object.
\<close>

definition mode :: "request \<Rightarrow> js_error + string" where
  "mode request =
    (let hasIdParam = truthy (prop_of (req_params request) ''id'');
         hasRelationParam = truthy (prop_of (req_params request) ''relation'');
         hasRelatedParam = truthy (prop_of (req_params request) ''related'')
     in if \<not> hasIdParam then Inr COLLECTION_MODE
        else if \<not> hasRelationParam \<and> \<not> hasRelatedParam then Inr SINGLE_MODE
        else if hasRelationParam then Inr RELATION_MODE
        else if hasRelatedParam then Inr RELATED_MODE
        else Inl (Kapow 400 ''Unable to determine mode based on `request.params` keys.''))"

section \<open>Strings\<close>

text \<open>\<^verbatim>\<open>s.split(sep)\<close> for a one-character separator.\<close>

fun js_split :: "char \<Rightarrow> string \<Rightarrow> string list" where
  "js_split sep [] = [[]]"
| "js_split sep (c # cs) =
     (if c = sep then [] # js_split sep cs
      else (case js_split sep cs of [] \<Rightarrow> [[c]] | w # ws \<Rightarrow> (c # w) # ws))"

text \<open>
  \<^verbatim>\<open>s.toLowerCase()\<close> on the letters A to Z; every other character is kept. (No character
  outside A to Z has n, u or l as its lower case, which is all the handler looks for.)
\<close>

definition lower :: "char \<Rightarrow> char" where
  "lower c =
     (case map_of (zip ''ABCDEFGHIJKLMNOPQRSTUVWXYZ'' ''abcdefghijklmnopqrstuvwxyz'') c of
        None \<Rightarrow> c
      | Some l \<Rightarrow> l)"

definition toLowerCase :: "string \<Rightarrow> string" where
  "toLowerCase s = map lower s"

text \<open>\<^verbatim>\<open>s.indexOf(p)\<close>: the position of the first occurrence of \<^verbatim>\<open>p\<close>, or -1.\<close>

fun indexOf_from :: "nat \<Rightarrow> string \<Rightarrow> string \<Rightarrow> int" where
  "indexOf_from i [] p = (if p = [] then int i else - 1)"
| "indexOf_from i (c # cs) p =
     (if prefix p (c # cs) then int i else indexOf_from (Suc i) cs p)"

definition indexOf :: "string \<Rightarrow> string \<Rightarrow> int" where
  "indexOf s p = indexOf_from 0 s p"

text \<open>
  The claim's wording of the same test: the message contains the substring
  \<^verbatim>\<open>null\<close>, in any mix of upper and lower case.
\<close>

definition contains_null :: "string \<Rightarrow> bool" where
  "contains_null s = (\<exists>pre w suf. s = pre @ w @ suf \<and> toLowerCase w = ''null'')"

text \<open>Decimal digits, as \<^verbatim>\<open>String(n)\<close> prints a safe integer.\<close>

fun nat_digits :: "nat \<Rightarrow> string" where
  "nat_digits n =
     (if n < 10 then [''0123456789'' ! n] else nat_digits (n div 10) @ [''0123456789'' ! (n mod 10)])"

declare nat_digits.simps [simp del]

definition int_digits :: "int \<Rightarrow> string" where
  "int_digits i = (if i < 0 then CHR ''-'' # nat_digits (nat (- i)) else nat_digits (nat i))"

fun join_comma :: "string list \<Rightarrow> string" where
  "join_comma [] = []"
| "join_comma [s] = s"
| "join_comma (s # t # ss) = s @ '','' @ join_comma (t # ss)"

text \<open>
  The conversion of a value to a property key, \<^verbatim>\<open>String(v)\<close>: needed for
  \<^verbatim>\<open>data.links[relation]\<close>. How the engine prints a number (digits, rounding, exponent
  notation) is the parameter \<open>num\<close>.
\<close>

fun ToString :: "(int \<Rightarrow> string) \<Rightarrow> jsval \<Rightarrow> string" where
  "ToString num JUndefined = ''undefined''"
| "ToString num JNull = ''null''"
| "ToString num (JBool b) = (if b then ''true'' else ''false'')"
| "ToString num (JNum n) = num n"
| "ToString num (JStr s) = s"
| "ToString num (JArr xs) =
     join_comma (map (\<lambda>x. if x = JUndefined \<or> x = JNull then [] else ToString num x) xs)"
| "ToString num (JObj ps) = ''[object Object]''"

text \<open>
  \<^verbatim>\<open>o.k = v\<close> for a key that is an own property or is new: an existing property keeps its
  place, a new one is added last.
\<close>

fun set_prop :: "(string \<times> jsval) list \<Rightarrow> string \<Rightarrow> jsval \<Rightarrow> (string \<times> jsval) list" where
  "set_prop [] k v = [(k, v)]"
| "set_prop ((k', v') # ps) k v =
     (if k' = k then (k, v) # ps else (k', v') # set_prop ps k v)"

text \<open>
  \<^verbatim>\<open>o[k] = v\<close> with a computed key, on an object made by a literal. The key
  \<^verbatim>\<open>__proto__\<close> is the accessor that every such object inherits: the assignment calls
  its setter, which changes the prototype at most and adds no own property.
\<close>

definition assign :: "(string \<times> jsval) list \<Rightarrow> string \<Rightarrow> jsval \<Rightarrow> (string \<times> jsval) list" where
  "assign ps k v = (if k = ''__proto__'' then ps else set_prop ps k v)"

section \<open>The handler, its adapter and its helper modules\<close>

text \<open>
  The per-resource configuration. A default that the configuration does not define is
  \<^verbatim>\<open>undefined\<close> (\<open>None\<close>).
\<close>

record config =
  config_include :: "string list option"
  config_filter :: "(string \<times> jsval) list option"
  config_fields :: "(string \<times> jsval) list option"
  config_sort :: "string list option"
  config_method :: jsval
  config_typeName :: jsval

text \<open>The query object built by \<^verbatim>\<open>query\<close> and handed to the adapter.\<close>

record query_descriptor =
  qd_include :: "string list option"
  qd_filter :: "(string \<times> jsval) list option"
  qd_fields :: "(string \<times> jsval) list option"
  qd_sort :: "string list option"

text \<open>
  The adapter is an external collaborator, known by its contract only. Each operation
  acts on the adapter's own state \<open>'s\<close> and hands back a promise, which here is already
  settled: \<open>Inl e\<close> is a promise rejected with \<open>e\<close>, \<open>Inr v\<close> one fulfilled with \<open>v\<close>.
  \<^verbatim>\<open>typeName()\<close> has no effect and always gives the same name.
\<close>

record 's adapter =
  adapter_typeName :: jsval
  adapter_byId :: "jsval \<Rightarrow> jsval \<Rightarrow> 's \<Rightarrow> (js_error + jsval) \<times> 's"
  adapter_create :: "jsval \<Rightarrow> jsval \<Rightarrow> 's \<Rightarrow> (js_error + jsval) \<times> 's"
  adapter_update :: "jsval \<Rightarrow> jsval \<Rightarrow> jsval \<Rightarrow> 's \<Rightarrow> (js_error + jsval) \<times> 's"
  adapter_read :: "query_descriptor \<Rightarrow> js_error + string \<Rightarrow> 's \<Rightarrow> (js_error + jsval) \<times> 's"
  adapter_related :: "query_descriptor \<Rightarrow> jsval \<Rightarrow> jsval \<Rightarrow> 's \<Rightarrow> (js_error + jsval) \<times> 's"

text \<open>The adapter operations the handler invokes, with their arguments.\<close>

datatype call =
    ById jsval jsval
  | Create jsval jsval
  | Update jsval jsval jsval
  | Read query_descriptor "js_error + string"
  | Related query_descriptor jsval jsval

text \<open>
  A validator is called with the request and the handler; of the handler it is given
  the configuration. It returns an error, or \<^verbatim>\<open>undefined\<close> (\<open>None\<close>).
\<close>

type_synonym validator = "request \<Rightarrow> config \<Rightarrow> js_error option"

text \<open>The fields that the constructor sets on \<^verbatim>\<open>this\<close>.\<close>

record 's RequestHandler =
  this_config :: config
  this_adapter :: "'s adapter"
  this_validators :: "validator list"
  this_method :: jsval

text \<open>
  What a handler method can change: the handler object itself, the adapter's state, and
  the record of the adapter operations invoked so far, oldest first.
\<close>

record 's state =
  handler :: "'s RequestHandler"
  store :: 's
  calls :: "call list"

text \<open>
  Modelled from the spec: the message of the error that \<^verbatim>\<open>lib/throw_if_no_model\<close>, which
  is missing from the source, raises. The spec does not give its wording. It does say
  that an update of a nonexistent id fails with 404, and \<open>update\<close> tags with 409 every
  rejection whose message contains \<^verbatim>\<open>null\<close>: so the message is one that does not
  contain \<^verbatim>\<open>null\<close>.
\<close>

typedef plain_message = "{s :: string. \<not> contains_null s}"
  by (rule exI [of _ "[]"]) (simp add: contains_null_def toLowerCase_def)

text \<open>
  What the handler takes from outside its source file. The helper modules under
  \<^verbatim>\<open>./lib\<close> are not part of the source: the three validators and \<^verbatim>\<open>splitStringProps\<close>
  (which turns the raw \<^verbatim>\<open>filter\<close> or \<^verbatim>\<open>fields\<close> parameter into a mapping) are parameters,
  and so are the messages of the two errors that \<^verbatim>\<open>throwIfModel\<close> and
  \<^verbatim>\<open>throwIfNoModel\<close> raise, which the spec does not give. \<open>number_text\<close> is the
  engine's printing of a number.
\<close>

record lib =
  verifyAccept :: validator
  verifyContentType :: validator
  verifyDataObject :: validator
  splitStringProps :: "jsval \<Rightarrow> (string \<times> jsval) list"
  number_text :: "int \<Rightarrow> string"
  conflict_message :: string
  not_found_text :: plain_message

definition not_found_message :: "lib \<Rightarrow> string" where
  "not_found_message L = Rep_plain_message (not_found_text L)"

text \<open>
  Modelled from the spec: \<^verbatim>\<open>lib/throw_if_model\<close> is missing from the source. Given the
  result of a lookup, it fails with a 409 conflict error if an existing resource was
  found, and passes the result on otherwise. A found resource is a truthy result, the
  test \<^verbatim>\<open>destroy\<close> makes in the source.
\<close>

definition throwIfModel :: "lib \<Rightarrow> jsval \<Rightarrow> js_error + jsval" where
  "throwIfModel L model =
     (if truthy model then Inl (Kapow 409 (conflict_message L)) else Inr model)"

text \<open>
  Modelled from the spec: \<^verbatim>\<open>lib/throw_if_no_model\<close> is missing from the source. Given the
  result of a lookup, it fails with a 404 error if the resource is absent, and passes
  the found model on otherwise.
\<close>

definition throwIfNoModel :: "lib \<Rightarrow> jsval \<Rightarrow> js_error + jsval" where
  "throwIfNoModel L model =
     (if truthy model then Inr model else Inl (Kapow 404 (not_found_message L)))"

text \<open>
  \<^verbatim>\<open>_.cloneDeep\<close>: a copy that shares nothing with the original. Values here are trees
  without identity, so the copy is the same value.
\<close>

definition cloneDeep :: "config \<Rightarrow> config" where
  "cloneDeep c = c"

section \<open>Promises\<close>

text \<open>
  What a call of a handler method gives its caller: an exception thrown by the call
  itself, or a promise, rejected or fulfilled.
\<close>

datatype outcome = Throws js_error | Rejects js_error | Resolves jsval

definition promise :: "js_error + jsval \<Rightarrow> outcome" where
  "promise r = (case r of Inl e \<Rightarrow> Rejects e | Inr v \<Rightarrow> Resolves v)"

definition settle :: "(js_error + jsval) \<times> 'st \<Rightarrow> outcome \<times> 'st" where
  "settle p = (case p of (r, st) \<Rightarrow> (promise r, st))"

text \<open>
  \<^verbatim>\<open>p.then(f)\<close> runs \<open>f\<close> on the value of a fulfilled promise and passes a rejection on;
  \<^verbatim>\<open>p.catch(f)\<close> runs \<open>f\<close> on the reason of a rejected promise and passes a value on. An
  exception thrown inside \<open>f\<close> rejects the promise that results.
\<close>

definition then_do ::
  "(js_error + jsval) \<times> 'st \<Rightarrow> (jsval \<Rightarrow> 'st \<Rightarrow> (js_error + jsval) \<times> 'st) \<Rightarrow> (js_error + jsval) \<times> 'st"
where
  "then_do p f = (case p of (Inl e, st) \<Rightarrow> (Inl e, st) | (Inr v, st) \<Rightarrow> f v st)"

definition catch_do ::
  "(js_error + jsval) \<times> 'st \<Rightarrow> (js_error \<Rightarrow> 'st \<Rightarrow> (js_error + jsval) \<times> 'st) \<Rightarrow> (js_error + jsval) \<times> 'st"
where
  "catch_do p f = (case p of (Inl e, st) \<Rightarrow> f e st | (Inr v, st) \<Rightarrow> (Inr v, st))"

text \<open>Invoking an adapter operation: it acts on the adapter's state and is recorded.\<close>

definition invoke ::
  "call \<Rightarrow> ('s \<Rightarrow> (js_error + jsval) \<times> 's) \<Rightarrow> 's state \<Rightarrow> (js_error + jsval) \<times> 's state"
where
  "invoke c f st =
     (case f (store st) of (r, s') \<Rightarrow> (r, st\<lparr>store := s', calls := calls st @ [c]\<rparr>))"

section \<open>The methods of the request handler\<close>

text \<open>
  \<^verbatim>\<open>RequestHandler.prototype.validate\<close>. The array of validators is built first; the loop
  then calls them by index and stops at the first error. Next to the error, the model
  returns the indices of the validators that were called, in the order of the calls.
\<close>

definition validate_validators :: "lib \<Rightarrow> request \<Rightarrow> 's RequestHandler \<Rightarrow> validator list" where
  "validate_validators L request this =
     ([verifyAccept L]
      @ (if truthy (req_body request) \<and>
            (case get (req_body request) ''data'' of Inl e \<Rightarrow> False | Inr d \<Rightarrow> truthy d)
         then [verifyContentType L, verifyDataObject L] else []))
     @ this_validators this"

fun validate_loop ::
  "validator list \<Rightarrow> nat \<Rightarrow> request \<Rightarrow> config \<Rightarrow> js_error option \<times> nat list"
where
  "validate_loop [] i request this = (None, [])"
| "validate_loop (v # vs) i request this =
     (case v request this of
        Some err \<Rightarrow> (Some err, [i])
      | None \<Rightarrow> (case validate_loop vs (Suc i) request this of (err, called) \<Rightarrow> (err, i # called)))"

definition validate :: "lib \<Rightarrow> request \<Rightarrow> 's RequestHandler \<Rightarrow> js_error option \<times> nat list" where
  "validate L request this =
     validate_loop (validate_validators L request this) 0 request (this_config this)"

text \<open>\<^verbatim>\<open>RequestHandler.prototype.query\<close>.\<close>

definition query :: "lib \<Rightarrow> request \<Rightarrow> 's state \<Rightarrow> query_descriptor \<times> 's state" where
  "query L request st =
     (let config = cloneDeep (this_config (handler st));
          q = req_query request;
          include = q_include q;
          filter = q_filter q;
          fields = q_fields q;
          sort = q_sort q
      in (\<lparr>qd_include =
             (case include of
                None \<Rightarrow> config_include config
              | Some s \<Rightarrow> if s \<noteq> [] then Some (js_split CHR '','' s) else config_include config),
           qd_filter =
             (if truthy filter then Some (splitStringProps L filter) else config_filter config),
           qd_fields =
             (if truthy fields then Some (splitStringProps L fields) else config_fields config),
           qd_sort =
             (case sort of
                None \<Rightarrow> config_sort config
              | Some s \<Rightarrow> if s \<noteq> [] then Some (js_split CHR '','' s) else config_sort config)\<rparr>,
          st))"

text \<open>
  \<^verbatim>\<open>RequestHandler.prototype.create\<close>. Reading \<^verbatim>\<open>request.body.data\<close> throws when the request
  has no body. \<open>guard\<close> is the value of \<^verbatim>\<open>data && data.id\<close>.
\<close>

definition create :: "lib \<Rightarrow> request \<Rightarrow> 's state \<Rightarrow> outcome \<times> 's state" where
  "create L request st =
     (let adapter = this_adapter (handler st);
          method = this_method (handler st)
      in case get (req_body request) ''data'' of
           Inl e \<Rightarrow> (Throws e, st)
         | Inr data \<Rightarrow>
             (case (if truthy data then get data ''id'' else Inr data) of
                Inl e \<Rightarrow> (Throws e, st)
              | Inr guard \<Rightarrow>
                  if truthy guard then
                    settle
                      (then_do
                        (then_do
                          (invoke (ById guard JUndefined) (adapter_byId adapter guard JUndefined) st)
                          (\<lambda>model s. (throwIfModel L model, s)))
                        (\<lambda>_. invoke (Create method data) (adapter_create adapter method data)))
                  else
                    settle (invoke (Create method data) (adapter_create adapter method data) st)))"

text \<open>
  \<^verbatim>\<open>RequestHandler.prototype.read\<close>. The assignment \<^verbatim>\<open>query.filter.id = id\<close> throws a
  TypeError when \<^verbatim>\<open>query.filter\<close> is \<^verbatim>\<open>undefined\<close>. \<open>qd\<close> is the source's
  variable \<^verbatim>\<open>query\<close> and \<open>md\<close> its variable \<^verbatim>\<open>mode\<close>.
\<close>

definition read :: "lib \<Rightarrow> request \<Rightarrow> 's state \<Rightarrow> outcome \<times> 's state" where
  "read L request st0 =
     (let adapter = this_adapter (handler st0)
      in case query L request st0 of (qd, st) \<Rightarrow>
        (let md = mode request;
             params = req_params request;
             id = prop_of params ''id''
         in if md = Inr RELATED_MODE then
              (let related = prop_of params ''related''
               in settle
                    (then_do
                      (then_do
                        (invoke (ById id related) (adapter_byId adapter id related) st)
                        (\<lambda>model s. (throwIfNoModel L model, s)))
                      (\<lambda>model. invoke (Related qd related model)
                                  (adapter_related adapter qd related model))))
            else if md = Inr RELATION_MODE then
              (Throws (Error ''not implemented''), st)
            else if truthy id then
              (case qd_filter qd of
                 None \<Rightarrow> (Throws (TypeError ''Cannot set property id of undefined''), st)
               | Some flt \<Rightarrow>
                   (let qd = qd\<lparr>qd_filter := Some (set_prop flt ''id'' id)\<rparr>
                    in settle (invoke (Read qd md) (adapter_read adapter qd md) st)))
            else settle (invoke (Read qd md) (adapter_read adapter qd md) st)))"

text \<open>
  \<^verbatim>\<open>RequestHandler.prototype.update\<close>. \<open>update_data\<close> is the payload after the rewrite for
  a relation, where \<^verbatim>\<open>links\<close> starts as \<^verbatim>\<open>{}\<close> and gets the body data by the assignment
  \<^verbatim>\<open>data.links[relation] = request.body.data\<close>; \<open>update_catch\<close> is the handler given to
  \<^verbatim>\<open>catch\<close>; \<open>update_chain\<close> is the promise chain before \<^verbatim>\<open>catch\<close>.
\<close>

definition update_data :: "lib \<Rightarrow> 's adapter \<Rightarrow> jsval \<Rightarrow> jsval \<Rightarrow> jsval" where
  "update_data L adapter relation body_data =
     (if truthy relation then
        JObj [(''type'', adapter_typeName adapter),
              (''links'', JObj (assign [] (ToString (number_text L) relation) body_data))]
      else body_data)"

definition update_catch :: "js_error \<Rightarrow> js_error" where
  "update_catch e =
     (if indexOf (toLowerCase (message e)) ''null'' \<noteq> - 1 then Kapow_wrap e 409 else e)"

definition update_chain ::
  "lib \<Rightarrow> jsval \<Rightarrow> jsval \<Rightarrow> 's state \<Rightarrow> (js_error + jsval) \<times> 's state"
where
  "update_chain L model_id data st =
     (let adapter = this_adapter (handler st);
          method = this_method (handler st)
      in then_do
           (then_do
             (invoke (ById model_id JUndefined) (adapter_byId adapter model_id JUndefined) st)
             (\<lambda>model s. (throwIfNoModel L model, s)))
           (\<lambda>model. invoke (Update model method data) (adapter_update adapter model method data)))"

definition update :: "lib \<Rightarrow> request \<Rightarrow> 's state \<Rightarrow> outcome \<times> 's state" where
  "update L request st =
     (let adapter = this_adapter (handler st);
          id = prop_of (req_params request) ''id'';
          relation = prop_of (req_params request) ''relation''
      in case get (req_body request) ''data'' of
           Inl e \<Rightarrow> (Throws e, st)
         | Inr body_data \<Rightarrow>
             settle
               (catch_do
                 (update_chain L id (update_data L adapter relation body_data) st)
                 (\<lambda>e s. (Inl (update_catch e), s))))"

section \<open>Presence of an id and of body data\<close>

text \<open>
  The id that \<^verbatim>\<open>body.data\<close> carries, if it carries one: the source's test
  \<^verbatim>\<open>data && data.id\<close>.
\<close>

definition client_supplied_id :: "jsval \<Rightarrow> jsval option" where
  "client_supplied_id data =
     (if truthy data then
        (case get data ''id'' of
           Inl e \<Rightarrow> None
         | Inr v \<Rightarrow> if truthy v then Some v else None)
      else None)"

text \<open>\<^verbatim>\<open>request.body.data\<close> is present: the source's test \<^verbatim>\<open>request.body && request.body.data\<close>.\<close>

definition body_data_present :: "request \<Rightarrow> bool" where
  "body_data_present request =
     (case req_body request of
        JObj ps \<Rightarrow> truthy (prop_of ps ''data'')
      | _ \<Rightarrow> False)"

section \<open>An adapter held in memory\<close>

text \<open>
  A small adapter for the \<^verbatim>\<open>chapters\<close> resource of the test fixtures, to run the handler
  on: its state is the list of the stored resources. \<^verbatim>\<open>byId\<close> gives the stored resource
  with the id, or \<^verbatim>\<open>null\<close>. \<^verbatim>\<open>update\<close> is rejected, as a database would, when the
  title is \<^verbatim>\<open>null\<close>, and when the payload is of another resource type.
\<close>

definition has_id :: "jsval \<Rightarrow> jsval \<Rightarrow> bool" where
  "has_id i r = (get r ''id'' = Inr i)"

definition memory_adapter :: "jsval list adapter" where
  "memory_adapter =
     \<lparr>adapter_typeName = JStr ''chapters'',
      adapter_byId = (\<lambda>i rel s. (Inr (case find (has_id i) s of None \<Rightarrow> JNull | Some r \<Rightarrow> r), s)),
      adapter_create = (\<lambda>m d s. (Inr d, s @ [d])),
      adapter_update =
        (\<lambda>model m d s.
           if get d ''title'' = Inr JNull
           then (Inl (Error ''SQLITE_CONSTRAINT: NOT NULL constraint failed: chapters.title''), s)
           else if get d ''type'' \<noteq> Inr (JStr ''chapters'')
           then (Inl (Error ''Unknown resource type''), s)
           else (Inr d, map (\<lambda>r. if r = model then d else r) s)),
      adapter_read = (\<lambda>q m s. (Inr (JArr s), s)),
      adapter_related = (\<lambda>q rel model s. (Inr (JArr []), s))\<rparr>"

text \<open>An adapter that has lost its database: every operation is rejected.\<close>

definition offline_adapter :: "jsval list adapter" where
  "offline_adapter =
     \<lparr>adapter_typeName = JStr ''chapters'',
      adapter_byId = (\<lambda>i rel s. (Inl (Error ''connect ECONNREFUSED''), s)),
      adapter_create = (\<lambda>m d s. (Inl (Error ''connect ECONNREFUSED''), s)),
      adapter_update = (\<lambda>model m d s. (Inl (Error ''connect ECONNREFUSED''), s)),
      adapter_read = (\<lambda>q m s. (Inl (Error ''connect ECONNREFUSED''), s)),
      adapter_related = (\<lambda>q rel model s. (Inl (Error ''connect ECONNREFUSED''), s))\<rparr>"

definition chapter1 :: jsval where
  "chapter1 =
     JObj [(''id'', JStr ''1''), (''type'', JStr ''chapters''), (''title'', JStr ''Loomings'')]"

definition chapter2 :: jsval where
  "chapter2 =
     JObj [(''id'', JStr ''2''), (''type'', JStr ''chapters''),
           (''title'', JStr ''The Carpet-Bag'')]"

definition chapter_new :: jsval where
  "chapter_new = JObj [(''type'', JStr ''chapters''), (''title'', JStr ''The Spouter-Inn'')]"

text \<open>
  Helper modules to run the handler with: the three protocol validators accept every
  request, \<^verbatim>\<open>splitStringProps\<close> splits every property of an object at the commas, and
  numbers are printed digit by digit.
\<close>

definition example_lib :: lib where
  "example_lib =
     \<lparr>verifyAccept = (\<lambda>request this. None),
      verifyContentType = (\<lambda>request this. None),
      verifyDataObject = (\<lambda>request this. None),
      splitStringProps =
        (\<lambda>v. case v of
               JObj ps \<Rightarrow>
                 map (\<lambda>(k, x). (k, JArr (map JStr (js_split CHR '','' (ToString int_digits x))))) ps
             | _ \<Rightarrow> []),
      number_text = int_digits,
      conflict_message = ''Conflict'',
      not_found_text = Abs_plain_message ''Not Found''\<rparr>"

definition always_fails :: validator where
  "always_fails request this = Some (Kapow 400 ''Bad Request'')"

definition always_passes :: validator where
  "always_passes request this = None"

text \<open>A configuration without defaults, and one whose defaults are empty.\<close>

definition bare_config :: config where
  "bare_config =
     \<lparr>config_include = None, config_filter = None, config_fields = None, config_sort = None,
      config_method = JStr ''save'', config_typeName = JStr ''chapters''\<rparr>"

definition default_config :: config where
  "default_config =
     \<lparr>config_include = Some [], config_filter = Some [], config_fields = Some [],
      config_sort = Some [], config_method = JStr ''save'', config_typeName = JStr ''chapters''\<rparr>"

definition example_handler :: "config \<Rightarrow> validator list \<Rightarrow> jsval list RequestHandler" where
  "example_handler c vs =
     \<lparr>this_config = c, this_adapter = memory_adapter, this_validators = vs,
      this_method = config_method c\<rparr>"

text \<open>A handler on the memory adapter, with the first chapter stored.\<close>

definition example_state :: "config \<Rightarrow> jsval list state" where
  "example_state c = \<lparr>handler = example_handler c [], store = [chapter1], calls = []\<rparr>"

text \<open>The same handler on the adapter that is offline.\<close>

definition offline_state :: "jsval list state" where
  "offline_state =
     \<lparr>handler = (example_handler default_config [])\<lparr>this_adapter := offline_adapter\<rparr>,
      store = [], calls = []\<rparr>"

definition empty_query :: raw_query where
  "empty_query = \<lparr>q_include = None, q_filter = JUndefined, q_fields = JUndefined, q_sort = None\<rparr>"

definition example_request :: "(string \<times> jsval) list \<Rightarrow> jsval \<Rightarrow> request" where
  "example_request params body =
     \<lparr>req_headers = [], req_params = params, req_query = empty_query, req_body = body\<rparr>"

text \<open>A read by id whose query string has a filter of its own.\<close>

definition filtered_request :: request where
  "filtered_request =
     \<lparr>req_headers = [], req_params = [(''id'', JStr ''5'')],
      req_query = empty_query\<lparr>q_filter := JObj [(''id'', JStr ''9''), (''title'', JStr ''Foo,Bar'')]\<rparr>,
      req_body = JUndefined\<rparr>"

section \<open>Promises and adapter calls: basic facts\<close>

lemma settle_pair [simp]: "settle (r, s) = (promise r, s)"
  by (simp add: settle_def)

lemma promise_simps [simp]:
  "promise (Inl e) = Rejects e" "promise (Inr v) = Resolves v"
  by (simp_all add: promise_def)

lemma then_do_simps [simp]:
  "then_do (Inl e, s) f = (Inl e, s)" "then_do (Inr v, s) f = f v s"
  by (simp_all add: then_do_def)

lemma catch_do_simps [simp]:
  "catch_do (Inl e, s) f = f e s" "catch_do (Inr v, s) f = (Inr v, s)"
  by (simp_all add: catch_do_def)

lemma invoke_eq:
  "f (store st) = (r, s') \<Longrightarrow> invoke c f st = (r, st\<lparr>store := s', calls := calls st @ [c]\<rparr>)"
  by (simp add: invoke_def)

lemma get_truthy: "truthy v \<Longrightarrow> \<exists>w. get v k = Inr w"
  by (cases v) auto

lemmas example_defs =
  example_state_def example_handler_def example_request_def example_lib_def memory_adapter_def
  default_config_def bare_config_def empty_query_def chapter1_def chapter2_def chapter_new_def
  has_id_def prop_of_def always_fails_def always_passes_def offline_state_def offline_adapter_def
  filtered_request_def not_found_message_def

section \<open>Mode resolution\<close>

lemmas mode_names = COLLECTION_MODE_def SINGLE_MODE_def RELATION_MODE_def RELATED_MODE_def

text \<open>The error branch at the end of \<open>mode\<close> is never taken.\<close>

lemma mode_never_error: "mode request \<noteq> Inl e"
  by (simp add: mode_def Let_def)

lemma mode_cases:
  "mode request = Inr COLLECTION_MODE \<longleftrightarrow> \<not> truthy (prop_of (req_params request) ''id'')"
  "mode request = Inr SINGLE_MODE \<longleftrightarrow>
     truthy (prop_of (req_params request) ''id'')
     \<and> \<not> truthy (prop_of (req_params request) ''relation'')
     \<and> \<not> truthy (prop_of (req_params request) ''related'')"
  "mode request = Inr RELATION_MODE \<longleftrightarrow>
     truthy (prop_of (req_params request) ''id'')
     \<and> truthy (prop_of (req_params request) ''relation'')"
  "mode request = Inr RELATED_MODE \<longleftrightarrow>
     truthy (prop_of (req_params request) ''id'')
     \<and> \<not> truthy (prop_of (req_params request) ''relation'')
     \<and> truthy (prop_of (req_params request) ''related'')"
  by (auto simp: mode_def Let_def mode_names)

text \<open>
  Claim C1. \<open>mode\<close> classifies every params object by the presence of \<^verbatim>\<open>id\<close>,
  \<^verbatim>\<open>relation\<close> and \<^verbatim>\<open>related\<close>, the first matching row winning: no id gives
  \<^verbatim>\<open>collection\<close>; an id with neither relation nor related gives \<^verbatim>\<open>single\<close>; an id with
  a relation gives \<^verbatim>\<open>relation\<close> (whether or not related is there too); an id with
  related and no relation gives \<^verbatim>\<open>related\<close>. The result is always one of the four
  modes or the 400-tagged error, so that no combination is left unclassified.
\<close>

theorem mode_classifies:
  "(\<not> truthy (prop_of (req_params request) ''id'') \<longrightarrow> mode request = Inr ''collection'')
   \<and> (truthy (prop_of (req_params request) ''id'')
        \<and> \<not> truthy (prop_of (req_params request) ''relation'')
        \<and> \<not> truthy (prop_of (req_params request) ''related'')
       \<longrightarrow> mode request = Inr ''single'')
   \<and> (truthy (prop_of (req_params request) ''id'')
        \<and> truthy (prop_of (req_params request) ''relation'')
       \<longrightarrow> mode request = Inr ''relation'')
   \<and> (truthy (prop_of (req_params request) ''id'')
        \<and> \<not> truthy (prop_of (req_params request) ''relation'')
        \<and> truthy (prop_of (req_params request) ''related'')
       \<longrightarrow> mode request = Inr ''related'')
   \<and> (mode request = Inr ''collection'' \<or> mode request = Inr ''single''
        \<or> mode request = Inr ''relation'' \<or> mode request = Inr ''related''
        \<or> mode request =
            Inl (Kapow 400 ''Unable to determine mode based on `request.params` keys.''))"
  by (simp add: mode_def Let_def mode_names)

theorem mode_classifies_witness:
  "mode (example_request [] JUndefined) = Inr ''collection''
   \<and> mode (example_request [(''id'', JStr ''5'')] JUndefined) = Inr ''single''
   \<and> mode (example_request [(''id'', JStr ''5''), (''relation'', JStr ''book''),
                             (''related'', JStr ''book'')] JUndefined) = Inr ''relation''
   \<and> mode (example_request [(''id'', JStr ''5''), (''related'', JStr ''book'')] JUndefined)
       = Inr ''related''"
  using mode_classifies [of "example_request [] JUndefined"]
    mode_classifies [of "example_request [(''id'', JStr ''5'')] JUndefined"]
    mode_classifies [of "example_request [(''id'', JStr ''5''), (''relation'', JStr ''book''),
                                          (''related'', JStr ''book'')] JUndefined"]
    mode_classifies [of "example_request [(''id'', JStr ''5''), (''related'', JStr ''book'')]
                          JUndefined"]
  by (simp add: example_request_def prop_of_def)

section \<open>The validation pipeline\<close>

text \<open>The loop calls the validators in order until one gives an error.\<close>

lemma validate_loop_all_pass:
  "(\<forall>j<length vs. (vs ! j) request this = None) \<Longrightarrow>
   validate_loop vs i request this = (None, [i..<i + length vs])"
proof (induction vs arbitrary: i)
  case Nil
  then show ?case by simp
next
  case (Cons v vs)
  from Cons.prems have v: "v request this = None" by auto
  from Cons.prems have "\<forall>j<length vs. (vs ! j) request this = None" by auto
  from Cons.IH [OF this, of "Suc i"] v show ?case
    by (simp add: upt_rec)
qed

lemma validate_loop_first_error:
  "k < length vs \<Longrightarrow> (vs ! k) request this = Some e \<Longrightarrow>
   (\<forall>j<k. (vs ! j) request this = None) \<Longrightarrow>
   validate_loop vs i request this = (Some e, [i..<i + Suc k])"
proof (induction vs arbitrary: i k)
  case Nil
  then show ?case by simp
next
  case (Cons v vs)
  show ?case
  proof (cases k)
    case 0
    with Cons.prems show ?thesis by simp
  next
    case (Suc k')
    with Cons.prems have v: "v request this = None" by auto
    from Suc Cons.prems have "k' < length vs" "(vs ! k') request this = Some e"
      "\<forall>j<k'. (vs ! j) request this = None" by auto
    from Cons.IH [OF this, of "Suc i"] v Suc show ?thesis
      by (simp add: upt_rec)
  qed
qed

lemma body_data_present_eq:
  "body_data_present request \<longleftrightarrow>
   truthy (req_body request) \<and>
   (case get (req_body request) ''data'' of Inl e \<Rightarrow> False | Inr d \<Rightarrow> truthy d)"
  by (cases "req_body request") (simp_all add: body_data_present_def)

text \<open>
  Claim C2. The validators that \<open>validate\<close> runs are the Accept-header check first, then
  the Content-Type check and the data-object check exactly when \<^verbatim>\<open>request.body.data\<close> is
  present (truthy, as the source tests it), then the configured validators in their
  declared order. If the validator at position \<open>k\<close> is the first to give an error,
  \<open>validate\<close> returns that error, and the validators called are those at positions 0 to
  \<open>k\<close>: none after it. If every validator passes, all are called and \<open>validate\<close>
  returns \<^verbatim>\<open>undefined\<close>.
\<close>

theorem validate_pipeline:
  "validate_validators L request this
     = verifyAccept L
       # (if body_data_present request then [verifyContentType L, verifyDataObject L] else [])
       @ this_validators this
   \<and> (k < length (validate_validators L request this)
        \<and> (validate_validators L request this ! k) request (this_config this) = Some e
        \<and> (\<forall>j<k. (validate_validators L request this ! j) request (this_config this) = None)
      \<longrightarrow> validate L request this = (Some e, [0..<Suc k]))
   \<and> ((\<forall>j<length (validate_validators L request this).
          (validate_validators L request this ! j) request (this_config this) = None)
      \<longrightarrow> validate L request this = (None, [0..<length (validate_validators L request this)]))"
proof (intro conjI impI)
  show "validate_validators L request this
     = verifyAccept L
       # (if body_data_present request then [verifyContentType L, verifyDataObject L] else [])
       @ this_validators this"
    by (simp add: validate_validators_def body_data_present_eq)
next
  assume "k < length (validate_validators L request this)
        \<and> (validate_validators L request this ! k) request (this_config this) = Some e
        \<and> (\<forall>j<k. (validate_validators L request this ! j) request (this_config this) = None)"
  then show "validate L request this = (Some e, [0..<Suc k])"
    using validate_loop_first_error [of k "validate_validators L request this" request
        "this_config this" e 0]
    by (simp add: validate_def)
next
  assume "\<forall>j<length (validate_validators L request this).
          (validate_validators L request this ! j) request (this_config this) = None"
  then show "validate L request this = (None, [0..<length (validate_validators L request this)])"
    using validate_loop_all_pass [of "validate_validators L request this" request
        "this_config this" 0]
    by (simp add: validate_def)
qed

theorem validate_pipeline_witness:
  "validate example_lib (example_request [] JUndefined)
      (example_handler default_config [always_fails, always_passes])
     = (Some (Kapow 400 ''Bad Request''), [0, 1])
   \<and> validate_validators example_lib (example_request [] (JObj [(''data'', chapter_new)]))
       (example_handler default_config [always_passes])
     = [verifyAccept example_lib, verifyContentType example_lib, verifyDataObject example_lib,
        always_passes]
   \<and> validate example_lib (example_request [] (JObj [(''data'', chapter_new)]))
       (example_handler default_config [always_passes])
     = (None, [0, 1, 2, 3])"
proof -
  let ?r1 = "example_request [] JUndefined"
  let ?h1 = "example_handler default_config [always_fails, always_passes]"
  let ?r2 = "example_request [] (JObj [(''data'', chapter_new)])"
  let ?h2 = "example_handler default_config [always_passes]"
  have p1: "\<not> body_data_present ?r1" and p2: "body_data_present ?r2"
    by (simp_all add: body_data_present_def example_defs)
  from validate_pipeline [of example_lib ?r1 ?h1] p1
  have v1: "validate_validators example_lib ?r1 ?h1
      = [verifyAccept example_lib, always_fails, always_passes]"
    by (simp add: example_handler_def)
  from validate_pipeline [of example_lib ?r2 ?h2] p2
  have v2: "validate_validators example_lib ?r2 ?h2
     = [verifyAccept example_lib, verifyContentType example_lib, verifyDataObject example_lib,
        always_passes]"
    by (simp add: example_handler_def)
  have a1: "(validate_validators example_lib ?r1 ?h1 ! 1) ?r1 (this_config ?h1)
      = Some (Kapow 400 ''Bad Request'')"
    by (simp add: v1 always_fails_def)
  have a0: "\<forall>j<1. (validate_validators example_lib ?r1 ?h1 ! j) ?r1 (this_config ?h1) = None"
    unfolding v1 by (simp add: example_lib_def)
  from validate_pipeline [of example_lib ?r1 ?h1 1 "Kapow 400 ''Bad Request''"] a1 a0
  have "validate example_lib ?r1 ?h1 = (Some (Kapow 400 ''Bad Request''), [0..<Suc 1])"
    unfolding v1 by simp
  then have w1: "validate example_lib ?r1 ?h1 = (Some (Kapow 400 ''Bad Request''), [0, 1])"
    by (simp add: upt_rec)
  have "\<forall>j<4. ([verifyAccept example_lib, verifyContentType example_lib,
                  verifyDataObject example_lib, always_passes] ! j) ?r2 (this_config ?h2) = None"
    by (auto simp: less_Suc_eq numeral_eq_Suc example_lib_def always_passes_def)
  then have b: "\<forall>j<length (validate_validators example_lib ?r2 ?h2).
      (validate_validators example_lib ?r2 ?h2 ! j) ?r2 (this_config ?h2) = None"
    by (simp add: v2)
  from validate_pipeline [of example_lib ?r2 ?h2] b
  have "validate example_lib ?r2 ?h2
      = (None, [0..<length (validate_validators example_lib ?r2 ?h2)])"
    by blast
  then have w2: "validate example_lib ?r2 ?h2 = (None, [0, 1, 2, 3])"
    unfolding v2 by (simp add: upt_rec)
  from w1 v2 w2 show ?thesis by simp
qed

section \<open>Query building\<close>

lemma query_state [simp]: "snd (query L request st) = st"
  by (simp add: query_def Let_def)

lemma qd_filter_query:
  "qd_filter (fst (query L request st)) =
     (if truthy (q_filter (req_query request)) then Some (splitStringProps L (q_filter (req_query request)))
      else config_filter (this_config (handler st)))"
  by (simp add: query_def Let_def cloneDeep_def)

text \<open>
  Claim C9. \<open>query\<close> leaves the handler, and with it the handler's configuration,
  as it was: the state after the call is the state before it. Called a second time
  with the same request it returns an equal query descriptor, and so it does on any
  handler with an equal configuration.
\<close>

theorem query_frame:
  "snd (query L request st) = st
   \<and> fst (query L request (snd (query L request st))) = fst (query L request st)
   \<and> (this_config (handler (st' :: 't state)) = this_config (handler st)
      \<longrightarrow> fst (query L request st') = fst (query L request st))"
  by (simp add: query_def Let_def)

theorem query_frame_witness:
  "query example_lib filtered_request (example_state default_config)
     = (\<lparr>qd_include = Some [],
         qd_filter = Some [(''id'', JArr [JStr ''9'']), (''title'', JArr [JStr ''Foo'', JStr ''Bar''])],
         qd_fields = Some [], qd_sort = Some []\<rparr>,
        example_state default_config)
   \<and> fst (query example_lib filtered_request offline_state)
     = fst (query example_lib filtered_request (example_state default_config))"
proof -
  have c: "this_config (handler offline_state) = this_config (handler (example_state default_config))"
    by (simp add: example_defs)
  have q: "fst (query example_lib filtered_request (example_state default_config))
     = \<lparr>qd_include = Some [],
         qd_filter = Some [(''id'', JArr [JStr ''9'']), (''title'', JArr [JStr ''Foo'', JStr ''Bar''])],
         qd_fields = Some [], qd_sort = Some []\<rparr>"
    by (simp add: query_def cloneDeep_def Let_def example_defs filtered_request_def)
  from query_frame [of example_lib filtered_request "example_state default_config" offline_state]
    c q
  show ?thesis by (simp add: prod_eq_iff)
qed

section \<open>Create\<close>

lemma client_supplied_id_Some:
  "client_supplied_id data = Some cid \<Longrightarrow>
   truthy data \<and> get data ''id'' = Inr cid \<and> truthy cid"
  by (auto simp: client_supplied_id_def split: if_splits sum.splits)

lemma client_supplied_id_None:
  "client_supplied_id data = None \<Longrightarrow>
   (if truthy data then get data ''id'' else Inr data) = Inr g \<Longrightarrow> \<not> truthy g"
  by (auto simp: client_supplied_id_def split: if_splits sum.splits)

text \<open>
  Claim C3 is stated for every request. On a request without a body, which carries no
  client-supplied id, \<open>create\<close> throws a TypeError when it reads \<^verbatim>\<open>request.body.data\<close>,
  and the adapter's create operation is not invoked.
\<close>

theorem create_without_body_counterexample:
  "fst (create example_lib (example_request [] JUndefined) (example_state default_config))
     = Throws (TypeError ''Cannot read property data of undefined'')
   \<and> calls (snd (create example_lib (example_request [] JUndefined) (example_state default_config)))
     = []"
  by (simp add: create_def example_defs)

text \<open>
  Claim C3, amended: for every create request that has a body, with \<open>data\<close> the value
  of \<^verbatim>\<open>request.body.data\<close>. If \<open>data\<close> carries a client-supplied id, \<open>create\<close> first
  looks the id up with \<^verbatim>\<open>byId\<close>. If a resource is found, the result is rejected with the
  409 conflict error and \<^verbatim>\<open>byId\<close> is the only adapter operation invoked. If none is
  found, the adapter's create operation is invoked next, with the method label and
  \<open>data\<close>, and its result is the result. If \<open>data\<close> carries no id, the adapter's
  create operation is the only one invoked.
\<close>

theorem create_conflict_check:
  assumes "get (req_body request) ''data'' = Inr data"
  shows
    "(client_supplied_id data = Some cid
        \<and> adapter_byId (this_adapter (handler st)) cid JUndefined (store st) = (Inr model, s')
        \<and> truthy model
      \<longrightarrow> create L request st
          = (Rejects (Kapow 409 (conflict_message L)),
             st\<lparr>store := s', calls := calls st @ [ById cid JUndefined]\<rparr>))
     \<and> (client_supplied_id data = Some cid
        \<and> adapter_byId (this_adapter (handler st)) cid JUndefined (store st) = (Inr model, s')
        \<and> \<not> truthy model
        \<and> adapter_create (this_adapter (handler st)) (this_method (handler st)) data s' = (r, s'')
      \<longrightarrow> create L request st
          = (promise r,
             st\<lparr>store := s'',
                calls := calls st @ [ById cid JUndefined, Create (this_method (handler st)) data]\<rparr>))
     \<and> (client_supplied_id data = None
        \<and> adapter_create (this_adapter (handler st)) (this_method (handler st)) data (store st) = (r, s'')
      \<longrightarrow> create L request st
          = (promise r,
             st\<lparr>store := s'', calls := calls st @ [Create (this_method (handler st)) data]\<rparr>))"
proof (intro conjI impI)
  assume h: "client_supplied_id data = Some cid
        \<and> adapter_byId (this_adapter (handler st)) cid JUndefined (store st) = (Inr model, s')
        \<and> truthy model"
  then have g: "truthy data" "get data ''id'' = Inr cid" "truthy cid"
    using client_supplied_id_Some by blast+
  from h show "create L request st
          = (Rejects (Kapow 409 (conflict_message L)),
             st\<lparr>store := s', calls := calls st @ [ById cid JUndefined]\<rparr>)"
    by (simp add: create_def assms g invoke_eq throwIfModel_def)
next
  assume h: "client_supplied_id data = Some cid
        \<and> adapter_byId (this_adapter (handler st)) cid JUndefined (store st) = (Inr model, s')
        \<and> \<not> truthy model
        \<and> adapter_create (this_adapter (handler st)) (this_method (handler st)) data s' = (r, s'')"
  then have g: "truthy data" "get data ''id'' = Inr cid" "truthy cid"
    using client_supplied_id_Some by blast+
  from h show "create L request st
          = (promise r,
             st\<lparr>store := s'',
                calls := calls st @ [ById cid JUndefined, Create (this_method (handler st)) data]\<rparr>)"
    by (simp add: create_def assms g invoke_eq throwIfModel_def)
next
  assume h: "client_supplied_id data = None
        \<and> adapter_create (this_adapter (handler st)) (this_method (handler st)) data (store st) = (r, s'')"
  obtain g where g: "(if truthy data then get data ''id'' else Inr data) = Inr g"
    using get_truthy [of data "''id''"] by (cases "truthy data") auto
  with h have "\<not> truthy g" using client_supplied_id_None by blast
  with h g show "create L request st
          = (promise r,
             st\<lparr>store := s'', calls := calls st @ [Create (this_method (handler st)) data]\<rparr>)"
    by (simp add: create_def assms invoke_eq)
qed

theorem create_conflict_check_witness:
  "create example_lib (example_request [] (JObj [(''data'', chapter1)])) (example_state default_config)
     = (Rejects (Kapow 409 ''Conflict''),
        (example_state default_config)\<lparr>store := [chapter1], calls := [ById (JStr ''1'') JUndefined]\<rparr>)
   \<and> create example_lib (example_request [] (JObj [(''data'', chapter2)])) (example_state default_config)
     = (Resolves chapter2,
        (example_state default_config)
          \<lparr>store := [chapter1, chapter2],
           calls := [ById (JStr ''2'') JUndefined, Create (JStr ''save'') chapter2]\<rparr>)
   \<and> create example_lib (example_request [] (JObj [(''data'', chapter_new)])) (example_state default_config)
     = (Resolves chapter_new,
        (example_state default_config)
          \<lparr>store := [chapter1, chapter_new], calls := [Create (JStr ''save'') chapter_new]\<rparr>)"
  using
    create_conflict_check [of "example_request [] (JObj [(''data'', chapter1)])" chapter1
      "JStr ''1''" "example_state default_config" chapter1 "[chapter1]" example_lib]
    create_conflict_check [of "example_request [] (JObj [(''data'', chapter2)])" chapter2
      "JStr ''2''" "example_state default_config" JNull "[chapter1]" example_lib
      "Inr chapter2" "[chapter1, chapter2]"]
    create_conflict_check [of "example_request [] (JObj [(''data'', chapter_new)])" chapter_new
      JNull "example_state default_config" JNull "[]" example_lib
      "Inr chapter_new" "[chapter1, chapter_new]"]
  by (simp add: client_supplied_id_def example_defs)

section \<open>Update\<close>

text \<open>The test of the error handler is the search for \<^verbatim>\<open>null\<close> in any case.\<close>

lemma indexOf_from_found:
  "indexOf_from i s p \<noteq> - 1 \<longleftrightarrow> (\<exists>pre suf. s = pre @ p @ suf)"
proof (induction s arbitrary: i)
  case Nil
  then show ?case by auto
next
  case (Cons c cs)
  show ?case
  proof (cases "prefix p (c # cs)")
    case True
    then obtain suf where "c # cs = p @ suf" by (auto simp: prefix_def)
    then have "c # cs = [] @ p @ suf" by simp
    then have "\<exists>pre suf. c # cs = pre @ p @ suf" by blast
    with True show ?thesis by simp
  next
    case False
    have "(\<exists>pre suf. c # cs = pre @ p @ suf) \<longleftrightarrow> (\<exists>pre suf. cs = pre @ p @ suf)"
    proof
      assume "\<exists>pre suf. c # cs = pre @ p @ suf"
      then obtain pre suf where e: "c # cs = pre @ p @ suf" by blast
      from False e have "pre \<noteq> []" by (auto simp: prefix_def)
      then obtain pre' where "pre = c # pre'" using e by (cases pre) auto
      with e have "cs = pre' @ p @ suf" by simp
      then show "\<exists>pre suf. cs = pre @ p @ suf" by blast
    next
      assume "\<exists>pre suf. cs = pre @ p @ suf"
      then obtain pre suf where "cs = pre @ p @ suf" by blast
      then have "c # cs = (c # pre) @ p @ suf" by simp
      then show "\<exists>pre suf. c # cs = pre @ p @ suf" by blast
    qed
    with False Cons.IH [of "Suc i"] show ?thesis by simp
  qed
qed

lemma map_infix:
  "(\<exists>pre suf. map f s = pre @ p @ suf)
   \<longleftrightarrow> (\<exists>pre w suf. s = pre @ w @ suf \<and> map f w = p)"
proof
  assume "\<exists>pre suf. map f s = pre @ p @ suf"
  then obtain pre suf where e: "map f s = pre @ (p @ suf)" by blast
  from map_eq_append_conv [THEN iffD1, OF e]
  obtain a b where ab: "s = a @ b" "pre = map f a" "p @ suf = map f b"
    by blast
  from ab(3) have "map f b = p @ suf" by simp
  from map_eq_append_conv [THEN iffD1, OF this]
  obtain w c where wc: "b = w @ c" "p = map f w" "suf = map f c"
    by blast
  from ab(1) wc(1) wc(2) have "s = a @ w @ c \<and> map f w = p" by simp
  then show "\<exists>pre w suf. s = pre @ w @ suf \<and> map f w = p" by blast
next
  assume "\<exists>pre w suf. s = pre @ w @ suf \<and> map f w = p"
  then obtain pre w suf where "s = pre @ w @ suf" "map f w = p" by blast
  then have "map f s = map f pre @ p @ map f suf" by simp
  then show "\<exists>pre suf. map f s = pre @ p @ suf" by blast
qed

lemma indexOf_contains_null:
  "indexOf (toLowerCase s) ''null'' \<noteq> - 1 \<longleftrightarrow> contains_null s"
  unfolding indexOf_def toLowerCase_def contains_null_def indexOf_from_found
  by (rule map_infix)

lemma update_catch_eq:
  "update_catch e = (if contains_null (message e) then e\<lparr>httpStatus := Some 409\<rparr> else e)"
  using indexOf_contains_null [of "message e"] by (simp add: update_catch_def Kapow_wrap_def)

lemma update_via_chain:
  "get (req_body request) ''data'' = Inr body_data \<Longrightarrow>
   update L request st =
     (case update_chain L (prop_of (req_params request) ''id'')
             (update_data L (this_adapter (handler st)) (prop_of (req_params request) ''relation'')
                body_data) st of
        (Inl e, st') \<Rightarrow> (Rejects (update_catch e), st')
      | (Inr v, st') \<Rightarrow> (Resolves v, st'))"
  by (simp add: update_def Let_def catch_do_def split: prod.splits sum.splits)

lemma update_chain_byId_rejects:
  "adapter_byId (this_adapter (handler st)) i JUndefined (store st) = (Inl e, s') \<Longrightarrow>
   update_chain L i d st = (Inl e, st\<lparr>store := s', calls := calls st @ [ById i JUndefined]\<rparr>)"
  by (simp add: update_chain_def invoke_eq)


lemma update_chain_found:
  "adapter_byId (this_adapter (handler st)) i JUndefined (store st) = (Inr model, s') \<Longrightarrow>
   truthy model \<Longrightarrow>
   adapter_update (this_adapter (handler st)) model (this_method (handler st)) d s' = (r, s'') \<Longrightarrow>
   update_chain L i d st
     = (r, st\<lparr>store := s'',
              calls := calls st @ [ById i JUndefined, Update model (this_method (handler st)) d]\<rparr>)"
  by (simp add: update_chain_def invoke_eq throwIfNoModel_def)

lemma not_found_no_null: "\<not> contains_null ''Not Found''"
proof -
  have "indexOf (toLowerCase ''Not Found'') ''null'' = - 1" by code_simp
  then show ?thesis using indexOf_contains_null [of "''Not Found''"] by simp
qed

lemma sqlite_null:
  "contains_null ''SQLITE_CONSTRAINT: NOT NULL constraint failed: chapters.title''"
proof -
  have "indexOf (toLowerCase ''SQLITE_CONSTRAINT: NOT NULL constraint failed: chapters.title'')
          ''null'' = 23"
    by code_simp
  then show ?thesis
    using indexOf_contains_null
      [of "''SQLITE_CONSTRAINT: NOT NULL constraint failed: chapters.title''"]
    by simp
qed

lemma unknown_type_no_null: "\<not> contains_null ''Unknown resource type''"
proof -
  have "indexOf (toLowerCase ''Unknown resource type'') ''null'' = - 1" by code_simp
  then show ?thesis using indexOf_contains_null [of "''Unknown resource type''"] by simp
qed

lemma refused_no_null: "\<not> contains_null ''connect ECONNREFUSED''"
proof -
  have "indexOf (toLowerCase ''connect ECONNREFUSED'') ''null'' = - 1" by code_simp
  then show ?thesis using indexOf_contains_null [of "''connect ECONNREFUSED''"] by simp
qed


lemma plain_not_found [simp]: "Rep_plain_message (Abs_plain_message ''Not Found'') = ''Not Found''"
  by (simp add: Abs_plain_message_inverse not_found_no_null)





text \<open>
  Claim C5. When the promise chain of \<open>update\<close> (the lookup, the not-found check, the
  adapter's update) is rejected with an error \<open>e\<close>, the caller gets \<open>e\<close> tagged with
  status 409 if the message of \<open>e\<close> contains \<^verbatim>\<open>null\<close> in any case, and \<open>e\<close> unchanged
  otherwise. This holds in particular for a rejection by \<^verbatim>\<open>byId\<close> and for a rejection
  by the adapter's update operation. (The chain runs only if the body can be read.)
\<close>

theorem update_error_translation:
  assumes "get (req_body request) ''data'' = Inr body_data"
  shows
    "(update_chain L (prop_of (req_params request) ''id'')
          (update_data L (this_adapter (handler st)) (prop_of (req_params request) ''relation'')
             body_data) st = (Inl e, st')
      \<longrightarrow> update L request st
          = (Rejects (if contains_null (message e) then e\<lparr>httpStatus := Some 409\<rparr> else e), st'))
     \<and> (adapter_byId (this_adapter (handler st)) (prop_of (req_params request) ''id'') JUndefined
          (store st) = (Inl e, s')
      \<longrightarrow> fst (update L request st)
          = Rejects (if contains_null (message e) then e\<lparr>httpStatus := Some 409\<rparr> else e))
     \<and> (adapter_byId (this_adapter (handler st)) (prop_of (req_params request) ''id'') JUndefined
          (store st) = (Inr model, s')
        \<and> truthy model
        \<and> adapter_update (this_adapter (handler st)) model (this_method (handler st))
            (update_data L (this_adapter (handler st)) (prop_of (req_params request) ''relation'')
               body_data) s' = (Inl e, s'')
      \<longrightarrow> fst (update L request st)
          = Rejects (if contains_null (message e) then e\<lparr>httpStatus := Some 409\<rparr> else e))"
  by (simp add: update_via_chain [OF assms] update_catch_eq update_chain_byId_rejects
        update_chain_found)

theorem update_error_translation_witness:
  "update example_lib
      (example_request [(''id'', JStr ''1'')]
         (JObj [(''data'', JObj [(''type'', JStr ''chapters''), (''title'', JNull)])]))
      (example_state default_config)
     = (Rejects
          ((Error ''SQLITE_CONSTRAINT: NOT NULL constraint failed: chapters.title'')
             \<lparr>httpStatus := Some 409\<rparr>),
        (example_state default_config)
          \<lparr>store := [chapter1],
           calls :=
             [ById (JStr ''1'') JUndefined,
              Update chapter1 (JStr ''save'')
                (JObj [(''type'', JStr ''chapters''), (''title'', JNull)])]\<rparr>)
   \<and> fst (update example_lib
          (example_request [(''id'', JStr ''1'')]
             (JObj [(''data'', JObj [(''type'', JStr ''books''), (''title'', JStr ''Ahab'')])]))
          (example_state default_config))
     = Rejects (Error ''Unknown resource type'')
   \<and> fst (update example_lib (example_request [(''id'', JStr ''1'')] (JObj [(''data'', chapter1)]))
          offline_state)
     = Rejects (Error ''connect ECONNREFUSED'')"
proof -
  let ?r1 = "example_request [(''id'', JStr ''1'')]
         (JObj [(''data'', JObj [(''type'', JStr ''chapters''), (''title'', JNull)])])"
  let ?d1 = "JObj [(''type'', JStr ''chapters''), (''title'', JNull)]"
  let ?r2 = "example_request [(''id'', JStr ''1'')]
             (JObj [(''data'', JObj [(''type'', JStr ''books''), (''title'', JStr ''Ahab'')])])"
  let ?d2 = "JObj [(''type'', JStr ''books''), (''title'', JStr ''Ahab'')]"
  let ?r3 = "example_request [(''id'', JStr ''1'')] (JObj [(''data'', chapter1)])"
  have b1: "get (req_body ?r1) ''data'' = Inr ?d1"
    and b2: "get (req_body ?r2) ''data'' = Inr ?d2"
    and b3: "get (req_body ?r3) ''data'' = Inr chapter1"
    by (simp_all add: example_defs)
  have c1: "update_chain example_lib (prop_of (req_params ?r1) ''id'')
          (update_data example_lib (this_adapter (handler (example_state default_config)))
             (prop_of (req_params ?r1) ''relation'') ?d1) (example_state default_config)
        = (Inl (Error ''SQLITE_CONSTRAINT: NOT NULL constraint failed: chapters.title''),
           (example_state default_config)
          \<lparr>store := [chapter1],
           calls :=
             [ById (JStr ''1'') JUndefined,
              Update chapter1 (JStr ''save'')
                (JObj [(''type'', JStr ''chapters''), (''title'', JNull)])]\<rparr>)"
    by (simp add: update_chain_def update_data_def invoke_def throwIfNoModel_def Let_def
          example_defs)
  from update_error_translation [where L = example_lib and st = "example_state default_config"
      and e = "Error ''SQLITE_CONSTRAINT: NOT NULL constraint failed: chapters.title''", OF b1]
    c1 sqlite_null
  have w1: "update example_lib ?r1 (example_state default_config)
     = (Rejects
          ((Error ''SQLITE_CONSTRAINT: NOT NULL constraint failed: chapters.title'')
             \<lparr>httpStatus := Some 409\<rparr>),
        (example_state default_config)
          \<lparr>store := [chapter1],
           calls :=
             [ById (JStr ''1'') JUndefined,
              Update chapter1 (JStr ''save'')
                (JObj [(''type'', JStr ''chapters''), (''title'', JNull)])]\<rparr>)"
    by (simp add: Error_def)
  from update_error_translation [where L = example_lib and st = "example_state default_config"
      and e = "Error ''Unknown resource type''" and model = chapter1 and s' = "[chapter1]"
      and s'' = "[chapter1]", OF b2]
    unknown_type_no_null
  have w2: "fst (update example_lib ?r2 (example_state default_config))
     = Rejects (Error ''Unknown resource type'')"
    by (simp add: update_data_def example_defs Error_def)
  from update_error_translation [where L = example_lib and st = offline_state
      and e = "Error ''connect ECONNREFUSED''" and s' = "[]", OF b3]
    refused_no_null
  have w3: "fst (update example_lib ?r3 offline_state) = Rejects (Error ''connect ECONNREFUSED'')"
    by (simp add: example_defs Error_def)
  from w1 w2 w3 show ?thesis by simp
qed

section \<open>Read\<close>

lemma read_in_related_mode:
  "mode request = Inr RELATED_MODE \<Longrightarrow>
   read L request st =
     settle
       (then_do
         (then_do
           (invoke (ById (prop_of (req_params request) ''id'') (prop_of (req_params request) ''related''))
              (adapter_byId (this_adapter (handler st)) (prop_of (req_params request) ''id'')
                 (prop_of (req_params request) ''related'')) st)
           (\<lambda>model s. (throwIfNoModel L model, s)))
         (\<lambda>model. invoke (Related (fst (query L request st)) (prop_of (req_params request) ''related'') model)
                     (adapter_related (this_adapter (handler st)) (fst (query L request st))
                        (prop_of (req_params request) ''related'') model)))"
  by (simp add: read_def Let_def case_prod_beta del: settle_pair)

lemma read_plain_eq:
  "mode request \<noteq> Inr RELATED_MODE \<Longrightarrow> mode request \<noteq> Inr RELATION_MODE \<Longrightarrow>
   read L request st =
     (if truthy (prop_of (req_params request) ''id'') then
        (case qd_filter (fst (query L request st)) of
           None \<Rightarrow> (Throws (TypeError ''Cannot set property id of undefined''), st)
         | Some flt \<Rightarrow>
             settle
               (invoke
                 (Read ((fst (query L request st))
                          \<lparr>qd_filter := Some (set_prop flt ''id'' (prop_of (req_params request) ''id''))\<rparr>)
                    (mode request))
                 (adapter_read (this_adapter (handler st))
                    ((fst (query L request st))
                       \<lparr>qd_filter := Some (set_prop flt ''id'' (prop_of (req_params request) ''id''))\<rparr>)
                    (mode request))
                 st))
      else settle
             (invoke (Read (fst (query L request st)) (mode request))
                (adapter_read (this_adapter (handler st)) (fst (query L request st)) (mode request))
                st))"
  by (simp add: read_def Let_def case_prod_beta del: settle_pair split: option.splits)

lemma prop_of_set_prop_same [simp]: "prop_of (set_prop ps k v) k = v"
  by (induction ps) (auto simp: prop_of_def)

lemma prop_of_set_prop_other [simp]: "k' \<noteq> k \<Longrightarrow> prop_of (set_prop ps k v) k' = prop_of ps k'"
  by (induction ps) (auto simp: prop_of_def)

text \<open>
  Claim C6. In \<^verbatim>\<open>related\<close> mode, \<open>read\<close> first invokes \<^verbatim>\<open>byId\<close> with the request's id and
  the related relation name. If no base resource is found, the result is rejected with
  the 404 error and \<^verbatim>\<open>byId\<close> is the only adapter operation invoked. Otherwise the
  adapter's related operation is invoked with the query descriptor, the relation name
  and the found model, and its result is the result.
\<close>

theorem read_related_lookup:
  assumes "mode request = Inr RELATED_MODE"
  shows
    "(adapter_byId (this_adapter (handler st)) (prop_of (req_params request) ''id'')
          (prop_of (req_params request) ''related'') (store st) = (Inr model, s')
        \<and> \<not> truthy model
      \<longrightarrow> read L request st
          = (Rejects (Kapow 404 (not_found_message L)),
             st\<lparr>store := s',
                calls := calls st @
                  [ById (prop_of (req_params request) ''id'')
                     (prop_of (req_params request) ''related'')]\<rparr>))
     \<and> (adapter_byId (this_adapter (handler st)) (prop_of (req_params request) ''id'')
          (prop_of (req_params request) ''related'') (store st) = (Inr model, s')
        \<and> truthy model
        \<and> adapter_related (this_adapter (handler st)) (fst (query L request st))
            (prop_of (req_params request) ''related'') model s' = (r, s'')
      \<longrightarrow> read L request st
          = (promise r,
             st\<lparr>store := s'',
                calls := calls st @
                  [ById (prop_of (req_params request) ''id'')
                     (prop_of (req_params request) ''related''),
                   Related (fst (query L request st))
                     (prop_of (req_params request) ''related'') model]\<rparr>))"
  by (simp add: read_in_related_mode [OF assms] invoke_eq throwIfNoModel_def)

theorem read_related_lookup_witness:
  "mode (example_request [(''id'', JStr ''99''), (''related'', JStr ''book'')] JUndefined)
     = Inr RELATED_MODE
   \<and> read example_lib (example_request [(''id'', JStr ''99''), (''related'', JStr ''book'')] JUndefined)
       (example_state default_config)
     = (Rejects (Kapow 404 ''Not Found''),
        (example_state default_config)
          \<lparr>store := [chapter1], calls := [ById (JStr ''99'') (JStr ''book'')]\<rparr>)
   \<and> read example_lib (example_request [(''id'', JStr ''1''), (''related'', JStr ''book'')] JUndefined)
       (example_state default_config)
     = (Resolves (JArr []),
        (example_state default_config)
          \<lparr>store := [chapter1],
           calls :=
             [ById (JStr ''1'') (JStr ''book''),
              Related \<lparr>qd_include = Some [], qd_filter = Some [], qd_fields = Some [],
                       qd_sort = Some []\<rparr>
                (JStr ''book'') chapter1]\<rparr>)"
proof -
  let ?r1 = "example_request [(''id'', JStr ''99''), (''related'', JStr ''book'')] JUndefined"
  let ?r2 = "example_request [(''id'', JStr ''1''), (''related'', JStr ''book'')] JUndefined"
  have m1: "mode ?r1 = Inr RELATED_MODE" and m2: "mode ?r2 = Inr RELATED_MODE"
    by (simp_all add: mode_def Let_def example_defs)
  from read_related_lookup [OF m1, of "example_state default_config" JNull "[chapter1]" example_lib]
  have w1: "read example_lib ?r1 (example_state default_config)
     = (Rejects (Kapow 404 ''Not Found''),
        (example_state default_config)
          \<lparr>store := [chapter1], calls := [ById (JStr ''99'') (JStr ''book'')]\<rparr>)"
    by (simp add: example_defs)
  from read_related_lookup [OF m2, of "example_state default_config" chapter1 "[chapter1]" example_lib
      "Inr (JArr [])" "[chapter1]"]
  have w2: "read example_lib ?r2 (example_state default_config)
     = (Resolves (JArr []),
        (example_state default_config)
          \<lparr>store := [chapter1],
           calls :=
             [ById (JStr ''1'') (JStr ''book''),
              Related \<lparr>qd_include = Some [], qd_filter = Some [], qd_fields = Some [],
                       qd_sort = Some []\<rparr>
                (JStr ''book'') chapter1]\<rparr>)"
    by (simp add: example_defs query_def cloneDeep_def Let_def)
  from m1 w1 w2 show ?thesis by simp
qed

text \<open>
  Claim C8. In \<^verbatim>\<open>relation\<close> mode, \<open>read\<close> throws the plain error \<^verbatim>\<open>not implemented\<close>,
  which carries no status tag, and the state is as before: no adapter operation is
  invoked.
\<close>

theorem read_relation_not_implemented:
  "mode request = Inr RELATION_MODE \<Longrightarrow>
   read L request st = (Throws (Error ''not implemented''), st)
   \<and> httpStatus (Error ''not implemented'') = None"
  by (simp add: read_def query_def Let_def mode_names Error_def)

theorem read_relation_not_implemented_witness:
  "mode (example_request [(''id'', JStr ''1''), (''relation'', JStr ''book'')] JUndefined)
     = Inr RELATION_MODE
   \<and> read example_lib (example_request [(''id'', JStr ''1''), (''relation'', JStr ''book'')] JUndefined)
       (example_state default_config)
     = (Throws (Error ''not implemented''), example_state default_config)"
proof -
  have m: "mode (example_request [(''id'', JStr ''1''), (''relation'', JStr ''book'')] JUndefined)
      = Inr RELATION_MODE"
    by (simp add: mode_def Let_def example_defs)
  from read_relation_not_implemented
    [where L = example_lib and st = "example_state default_config", OF m] m
  show ?thesis by simp
qed

text \<open>
  Claim C7 is stated for every read in \<^verbatim>\<open>collection\<close> or \<^verbatim>\<open>single\<close> mode. With params
  \<^verbatim>\<open>{ id: '5' }\<close> and an empty query string, on a handler whose configuration has no
  filter default, the mode is \<^verbatim>\<open>single\<close>, but \<open>read\<close> throws a TypeError at the
  assignment to \<^verbatim>\<open>filter.id\<close> and the adapter's read operation is not invoked.
\<close>

theorem read_by_id_without_filter_counterexample:
  "mode (example_request [(''id'', JStr ''5'')] JUndefined) = Inr ''single''
   \<and> fst (read example_lib (example_request [(''id'', JStr ''5'')] JUndefined)
          (example_state bare_config))
     = Throws (TypeError ''Cannot set property id of undefined'')
   \<and> calls (snd (read example_lib (example_request [(''id'', JStr ''5'')] JUndefined)
          (example_state bare_config))) = []"
  by (simp add: read_def query_def cloneDeep_def mode_def Let_def mode_names example_defs)

text \<open>
  Claim C7, amended: for every read in \<^verbatim>\<open>collection\<close> or \<^verbatim>\<open>single\<close> mode. If an id
  parameter is present and the query descriptor has a filter (from the query string or
  from a default of the configuration), the id is assigned to \<^verbatim>\<open>filter.id\<close>, which
  replaces a \<^verbatim>\<open>filter[id]\<close> of the query string and leaves every other key as it was, and
  the adapter's read operation is invoked with exactly that descriptor and the mode. If
  no id parameter is present, the adapter's read operation is invoked with the
  descriptor as built and the mode. In particular params \<^verbatim>\<open>{ id: '5' }\<close> with an empty
  query string, on a configuration whose filter default is the empty mapping, give mode
  \<^verbatim>\<open>single\<close> and a descriptor with \<^verbatim>\<open>filter.id = '5'\<close>.
\<close>

theorem read_by_id_sets_filter:
  assumes "mode request = Inr COLLECTION_MODE \<or> mode request = Inr SINGLE_MODE"
  shows
    "(truthy (prop_of (req_params request) ''id'')
        \<and> qd_filter (fst (query L request st)) = Some flt
        \<and> adapter_read (this_adapter (handler st))
            ((fst (query L request st))
               \<lparr>qd_filter := Some (set_prop flt ''id'' (prop_of (req_params request) ''id''))\<rparr>)
            (mode request) (store st) = (r, s')
      \<longrightarrow> read L request st
          = (promise r,
             st\<lparr>store := s',
                calls := calls st @
                  [Read ((fst (query L request st))
                           \<lparr>qd_filter :=
                              Some (set_prop flt ''id'' (prop_of (req_params request) ''id''))\<rparr>)
                     (mode request)]\<rparr>)
        \<and> prop_of (set_prop flt ''id'' (prop_of (req_params request) ''id'')) ''id''
            = prop_of (req_params request) ''id''
        \<and> (\<forall>k. k \<noteq> ''id'' \<longrightarrow>
               prop_of (set_prop flt ''id'' (prop_of (req_params request) ''id'')) k
               = prop_of flt k))
     \<and> (\<not> truthy (prop_of (req_params request) ''id'')
        \<and> adapter_read (this_adapter (handler st)) (fst (query L request st)) (mode request)
            (store st) = (r, s')
      \<longrightarrow> read L request st
          = (promise r,
             st\<lparr>store := s',
                calls := calls st @ [Read (fst (query L request st)) (mode request)]\<rparr>))"
proof -
  from assms have m: "mode request \<noteq> Inr RELATED_MODE" "mode request \<noteq> Inr RELATION_MODE"
    by (auto simp: mode_names)
  show ?thesis
    by (simp add: read_plain_eq [OF m] invoke_eq)
qed

theorem read_by_id_sets_filter_witness:
  "mode (example_request [(''id'', JStr ''5'')] JUndefined) = Inr ''single''
   \<and> read example_lib (example_request [(''id'', JStr ''5'')] JUndefined)
       (example_state default_config)
     = (Resolves (JArr [chapter1]),
        (example_state default_config)
          \<lparr>store := [chapter1],
           calls :=
             [Read \<lparr>qd_include = Some [], qd_filter = Some [(''id'', JStr ''5'')],
                    qd_fields = Some [], qd_sort = Some []\<rparr>
                (Inr ''single'')]\<rparr>)
   \<and> read example_lib filtered_request (example_state bare_config)
     = (Resolves (JArr [chapter1]),
        (example_state bare_config)
          \<lparr>store := [chapter1],
           calls :=
             [Read \<lparr>qd_include = None,
                    qd_filter =
                      Some [(''id'', JStr ''5''), (''title'', JArr [JStr ''Foo'', JStr ''Bar''])],
                    qd_fields = None, qd_sort = None\<rparr>
                (Inr ''single'')]\<rparr>)
   \<and> read example_lib (example_request [] JUndefined) (example_state bare_config)
     = (Resolves (JArr [chapter1]),
        (example_state bare_config)
          \<lparr>store := [chapter1],
           calls :=
             [Read \<lparr>qd_include = None, qd_filter = None, qd_fields = None, qd_sort = None\<rparr>
                (Inr ''collection'')]\<rparr>)"
proof -
  let ?r1 = "example_request [(''id'', JStr ''5'')] JUndefined"
  let ?r3 = "example_request [] JUndefined"
  have m1: "mode ?r1 = Inr COLLECTION_MODE \<or> mode ?r1 = Inr SINGLE_MODE"
    and m2: "mode filtered_request = Inr COLLECTION_MODE \<or> mode filtered_request = Inr SINGLE_MODE"
    and m3: "mode ?r3 = Inr COLLECTION_MODE \<or> mode ?r3 = Inr SINGLE_MODE"
    by (simp_all add: mode_def Let_def example_defs filtered_request_def)
  have n1: "mode ?r1 = Inr ''single''" and n2: "mode filtered_request = Inr ''single''"
    and n3: "mode ?r3 = Inr ''collection''"
    by (simp_all add: mode_def Let_def mode_names example_defs filtered_request_def)
  from read_by_id_sets_filter [where L = example_lib and st = "example_state default_config"
      and flt = "[]" and r = "Inr (JArr [chapter1])" and s' = "[chapter1]", OF m1] n1
  have w1: "read example_lib ?r1 (example_state default_config)
     = (Resolves (JArr [chapter1]),
        (example_state default_config)
          \<lparr>store := [chapter1],
           calls :=
             [Read \<lparr>qd_include = Some [], qd_filter = Some [(''id'', JStr ''5'')],
                    qd_fields = Some [], qd_sort = Some []\<rparr>
                (Inr ''single'')]\<rparr>)"
    by (simp add: query_def cloneDeep_def Let_def example_defs)
  from read_by_id_sets_filter [where L = example_lib and st = "example_state bare_config"
      and flt = "[(''id'', JArr [JStr ''9'']), (''title'', JArr [JStr ''Foo'', JStr ''Bar''])]"
      and r = "Inr (JArr [chapter1])" and s' = "[chapter1]", OF m2] n2
  have w2: "read example_lib filtered_request (example_state bare_config)
     = (Resolves (JArr [chapter1]),
        (example_state bare_config)
          \<lparr>store := [chapter1],
           calls :=
             [Read \<lparr>qd_include = None,
                    qd_filter =
                      Some [(''id'', JStr ''5''), (''title'', JArr [JStr ''Foo'', JStr ''Bar''])],
                    qd_fields = None, qd_sort = None\<rparr>
                (Inr ''single'')]\<rparr>)"
    by (simp add: query_def cloneDeep_def Let_def example_defs filtered_request_def)
  from read_by_id_sets_filter [where L = example_lib and st = "example_state bare_config"
      and r = "Inr (JArr [chapter1])" and s' = "[chapter1]", OF m3] n3
  have w3: "read example_lib ?r3 (example_state bare_config)
     = (Resolves (JArr [chapter1]),
        (example_state bare_config)
          \<lparr>store := [chapter1],
           calls :=
             [Read \<lparr>qd_include = None, qd_filter = None, qd_fields = None, qd_sort = None\<rparr>
                (Inr ''collection'')]\<rparr>)"
    by (simp add: query_def cloneDeep_def Let_def example_defs)
  from n1 w1 w2 w3 show ?thesis by simp
qed

text \<open>
  Claim C10. For a read with a truthy id and neither relation nor related: if the query
  string has no filter and the configuration has no filter default, the filter of the
  query descriptor is \<^verbatim>\<open>undefined\<close> and \<open>read\<close> throws a TypeError, with the state as
  before, so that the adapter's read operation is not reached. Hence a read by id that
  does not throw has a filter from the query string or from the configuration.
\<close>

theorem read_by_id_needs_filter:
  assumes "truthy (prop_of (req_params request) ''id'')"
    and "\<not> truthy (prop_of (req_params request) ''relation'')"
    and "\<not> truthy (prop_of (req_params request) ''related'')"
  shows
    "(\<not> truthy (q_filter (req_query request)) \<and> config_filter (this_config (handler st)) = None
      \<longrightarrow> qd_filter (fst (query L request st)) = None
        \<and> (\<exists>msg. read L request st = (Throws (TypeError msg), st)))
     \<and> ((\<forall>e. fst (read L request st) \<noteq> Throws e)
      \<longrightarrow> truthy (q_filter (req_query request))
          \<or> config_filter (this_config (handler st)) \<noteq> None)"
proof -
  from assms have "mode request = Inr SINGLE_MODE"
    by (simp add: mode_cases)
  then have m: "mode request \<noteq> Inr RELATED_MODE" "mode request \<noteq> Inr RELATION_MODE"
    by (auto simp: mode_names)
  have a: "\<not> truthy (q_filter (req_query request)) \<and> config_filter (this_config (handler st)) = None
      \<longrightarrow> qd_filter (fst (query L request st)) = None
        \<and> (\<exists>msg. read L request st = (Throws (TypeError msg), st))"
    by (auto simp add: read_plain_eq [OF m] assms qd_filter_query)
  then have "(\<forall>e. fst (read L request st) \<noteq> Throws e)
      \<longrightarrow> truthy (q_filter (req_query request))
          \<or> config_filter (this_config (handler st)) \<noteq> None"
    by force
  with a show ?thesis by blast
qed

theorem read_by_id_needs_filter_witness:
  "(\<exists>msg. read example_lib (example_request [(''id'', JStr ''5'')] JUndefined)
            (example_state bare_config)
          = (Throws (TypeError msg), example_state bare_config))
   \<and> fst (read example_lib (example_request [(''id'', JStr ''5'')] JUndefined)
          (example_state default_config)) = Resolves (JArr [chapter1])
   \<and> config_filter (this_config (handler (example_state default_config))) \<noteq> None"
proof -
  let ?r = "example_request [(''id'', JStr ''5'')] JUndefined"
  have p: "truthy (prop_of (req_params ?r) ''id'')"
    "\<not> truthy (prop_of (req_params ?r) ''relation'')"
    "\<not> truthy (prop_of (req_params ?r) ''related'')"
    by (simp_all add: example_defs)
  have f: "\<not> truthy (q_filter (req_query ?r))" by (simp add: example_defs)
  have c: "config_filter (this_config (handler (example_state bare_config))) = None"
    by (simp add: example_defs)
  from read_by_id_needs_filter [OF p, where L = example_lib and st = "example_state bare_config"]
    f c
  have w1: "\<exists>msg. read example_lib ?r (example_state bare_config)
          = (Throws (TypeError msg), example_state bare_config)"
    by simp
  have w2: "fst (read example_lib ?r (example_state default_config)) = Resolves (JArr [chapter1])"
    by (simp add: read_def query_def cloneDeep_def mode_def Let_def mode_names invoke_def
          example_defs)
  then have "\<forall>e. fst (read example_lib ?r (example_state default_config)) \<noteq> Throws e"
    by simp
  with read_by_id_needs_filter [OF p, where L = example_lib and st = "example_state default_config"] f
  have w3: "config_filter (this_config (handler (example_state default_config))) \<noteq> None"
    by simp
  from w1 w2 w3 show ?thesis by simp
qed

end
